theory Spec2Isabelle
  imports Main "HOL-Library.Word"
begin

section \<open>The task entity\<close>

text \<open>
  Both sides share one entity. The client declares it in \<^verbatim>\<open>types/Task.ts\<close> as
  \<^verbatim>\<open>{ id?: number; title: string; completed: boolean }\<close>, the server in
  \<^verbatim>\<open>model/Task.java\<close> as \<^verbatim>\<open>Long id; String title; boolean completed\<close>.
  The optional (nullable) id is an \<open>option\<close>; the field is called \<open>id_opt\<close>
  because \<open>id\<close> is the identity function of HOL. Identifiers are unbounded integers
  here: neither side computes with them. A JavaScript or Java string is a sequence
  of UTF-16 code units.
\<close>

type_synonym jsstring = "16 word list"

record Task =
  id_opt :: "int option"
  title :: jsstring
  completed :: bool

text \<open>An ASCII literal as a sequence of code units.\<close>

definition js :: "string \<Rightarrow> jsstring" where
  "js s = map of_char s"

section \<open>The server: TaskController over a TaskRepository\<close>

text \<open>
  The errors a store operation can end in. \<open>ValidationError\<close> and \<open>NotFoundError\<close>
  are the names of the specification's taxonomy; no line of \<^verbatim>\<open>TaskController\<close>
  raises either. \<open>OptimisticLockingFailure\<close> is the persistence layer's own failure.
\<close>

datatype error = ValidationError | NotFoundError | OptimisticLockingFailure

text \<open>
  Modelled from the spec: \<^verbatim>\<open>TaskRepository\<close> is an empty interface extending
  \<^verbatim>\<open>JpaRepository<Task, Long>\<close>; its implementation is generated by the persistence
  library and is not part of the sources. The table is one record per task, keyed by
  \<open>id\<close>, kept here in insertion order together with the counter of the identity column
  (\<^verbatim>\<open>@GeneratedValue(strategy = GenerationType.IDENTITY)\<close>): an id is assigned on the first
  save and never reused.
\<close>

record store =
  rows :: "Task list"
  next_id :: int

definition empty_store :: store where
  "empty_store = \<lparr>rows = [], next_id = 1\<rparr>"

text \<open>
  What \<^verbatim>\<open>save\<close> does with an entity whose id is set but has no row is not fixed by the
  sources: the persistence provider either inserts it as a new row under a generated
  id, or rejects it as a stale object, depending on its version. The choice is a
  parameter of the model.
\<close>

datatype merge_policy = InsertAsNew | RejectStale

definition findAll :: "store \<Rightarrow> Task list" where
  "findAll s = rows s"

definition existsById :: "store \<Rightarrow> int \<Rightarrow> bool" where
  "existsById s i = (Some i \<in> set (map id_opt (rows s)))"

text \<open>Modelled from the spec: persisting a new entity assigns the next generated id.\<close>

definition persist :: "Task \<Rightarrow> store \<Rightarrow> Task \<times> store" where
  "persist t s =
     (let t' = t\<lparr>id_opt := Some (next_id s)\<rparr>
      in (t', s\<lparr>rows := rows s @ [t'], next_id := next_id s + 1\<rparr>))"

text \<open>
  Modelled from the spec: \<^verbatim>\<open>save\<close> persists an entity without id, and overwrites the
  whole row of an entity whose id has one (title and completed both replaced).
\<close>

definition save :: "merge_policy \<Rightarrow> Task \<Rightarrow> store \<Rightarrow> error + Task \<times> store" where
  "save p t s =
     (case id_opt t of
        None \<Rightarrow> Inr (persist t s)
      | Some i \<Rightarrow>
          if existsById s i
          then Inr (t, s\<lparr>rows := map (\<lambda>r. if id_opt r = Some i then t else r) (rows s)\<rparr>)
          else (case p of
                  InsertAsNew \<Rightarrow> Inr (persist t s)
                | RejectStale \<Rightarrow> Inl OptimisticLockingFailure))"

text \<open>
  Modelled from the spec: \<^verbatim>\<open>deleteById\<close> removes the record if present; an id without
  a record is silently ignored.
\<close>

definition deleteById :: "int \<Rightarrow> store \<Rightarrow> error + store" where
  "deleteById i s = Inr (s\<lparr>rows := filter (\<lambda>r. id_opt r \<noteq> Some i) (rows s)\<rparr>)"

text \<open>
  The controller, \<^verbatim>\<open>TaskController.java\<close>. Each handler is one call of the repository;
  the repository's state is passed explicitly.
  \<^verbatim>\<open>
    @GetMapping            getAllTasks()          { return repository.findAll(); }
    @PostMapping           createTask(task)       { return repository.save(task); }
    @PutMapping("/{id}")   updateTask(id, task)   { task.setId(id); return repository.save(task); }
    @DeleteMapping("/{id}") deleteTask(id)        { repository.deleteById(id); }
  \<close>
\<close>

definition getAllTasks :: "store \<Rightarrow> Task list" where
  "getAllTasks s = findAll s"

definition createTask :: "merge_policy \<Rightarrow> Task \<Rightarrow> store \<Rightarrow> error + Task \<times> store" where
  "createTask p task s = save p task s"

definition updateTask :: "merge_policy \<Rightarrow> int \<Rightarrow> Task \<Rightarrow> store \<Rightarrow> error + Task \<times> store" where
  "updateTask p i task s = save p (task\<lparr>id_opt := Some i\<rparr>) s"

definition deleteTask :: "int \<Rightarrow> store \<Rightarrow> error + store" where
  "deleteTask i s = deleteById i s"

section \<open>The client: App, TaskForm, TaskList, TaskItem\<close>

subsection \<open>Promises, requests and responses\<close>

text \<open>
  A promise is looked at once it has settled. \<open>p.then(f)\<close> with no rejection handler
  passes a rejection on and otherwise continues with \<open>f\<close>; a promise returned by \<open>f\<close>
  is flattened.
\<close>

datatype 'a promise = Fulfilled 'a | Rejected

definition then_p :: "'a promise \<Rightarrow> ('a \<Rightarrow> 'b promise) \<Rightarrow> 'b promise" where
  "then_p p f = (case p of Rejected \<Rightarrow> Rejected | Fulfilled x \<Rightarrow> f x)"

text \<open>
  A request as \<open>App\<close> builds it: the method (the field is \<open>http_method\<close>, the
  plain word being taken by Isabelle), the id appended to \<^verbatim>\<open>API_URL\<close> (if any)
  and the task serialised into the body (if any).
\<close>

datatype verb = GET | POST | PUT | DELETE

record request =
  http_method :: verb
  url_id :: "int option"
  body :: "Task option"

text \<open>
  A response carries its HTTP status and \<open>res.json()\<close>, a promise that rejects when
  the body is not JSON. \<open>fetch\<close> itself rejects only when no response arrives; a
  response with an error status fulfils it. The parsed body is used as a \<open>Task\<close>
  without any check of its shape.
\<close>

record response =
  status :: nat
  json :: "Task promise"

type_synonym fetch = "request \<Rightarrow> response promise"

subsection \<open>App\<close>

text \<open>
  The state of \<open>App\<close> is \<open>tasks\<close> (\<^verbatim>\<open>useState<Task[]>([])\<close>). Two effects of the handlers
  are recorded next to it: the requests handed to \<open>fetch\<close>, and the number of promise
  chains that ended rejected. No chain of \<open>App\<close> has a \<^verbatim>\<open>catch\<close>, so such a rejection
  reaches no code of the client. A handler is followed until its chain has settled;
  \<open>tasks c\<close> is the list its closure captured.
\<close>

record client =
  tasks :: "Task list"
  sent :: "request list"
  unhandled :: nat

text \<open>
  The end of a chain whose last step is \<open>setTasks(ts)\<close>: the request has gone out; the
  state is replaced when the chain fulfils and untouched when it rejects.
\<close>

definition settle :: "client \<Rightarrow> request \<Rightarrow> Task list promise \<Rightarrow> client" where
  "settle c req p =
     (case p of
        Fulfilled ts \<Rightarrow> c\<lparr>tasks := ts, sent := sent c @ [req]\<rparr>
      | Rejected \<Rightarrow> c\<lparr>sent := sent c @ [req], unhandled := Suc (unhandled c)\<rparr>)"

text \<open>
  \<^verbatim>\<open>
  const addTask = (task: Task) => {
    fetch(API_URL, { method: "POST", headers: ..., body: JSON.stringify(task) })
      .then((res) => res.json())
      .then((newTask) => setTasks([...tasks, newTask]));
  };
  \<close>
\<close>

definition addTask :: "fetch \<Rightarrow> Task \<Rightarrow> client \<Rightarrow> client" where
  "addTask fetch task c =
     (let req = \<lparr>http_method = POST, url_id = None, body = Some task\<rparr>
      in settle c req
           (then_p (then_p (fetch req) json)
              (\<lambda>newTask. Fulfilled (tasks c @ [newTask]))))"

text \<open>
  \<^verbatim>\<open>
  const toggleTask = (id: number) => {
    const task = tasks.find((t) => t.id === id);
    if (!task) return;
    fetch(`${API_URL}/${id}`, { method: "PUT", headers: ...,
      body: JSON.stringify({ ...task, completed: !task.completed }) })
      .then((res) => res.json())
      .then((updatedTask) => setTasks(tasks.map((t) => (t.id === id ? updatedTask : t))));
  };
  \<close>
\<close>

definition toggleTask :: "fetch \<Rightarrow> int \<Rightarrow> client \<Rightarrow> client" where
  "toggleTask fetch i c =
     (case find (\<lambda>t. id_opt t = Some i) (tasks c) of
        None \<Rightarrow> c
      | Some task \<Rightarrow>
          (let req = \<lparr>http_method = PUT, url_id = Some i,
                      body = Some (task\<lparr>completed := \<not> completed task\<rparr>)\<rparr>
           in settle c req
                (then_p (then_p (fetch req) json)
                   (\<lambda>updatedTask.
                      Fulfilled (map (\<lambda>t. if id_opt t = Some i then updatedTask else t)
                                   (tasks c))))))"

text \<open>
  \<^verbatim>\<open>
  const deleteTask = (id: number) => {
    fetch(`${API_URL}/${id}`, { method: "DELETE" }).then(() =>
      setTasks(tasks.filter((t) => t.id !== id)));
  };
  \<close>
  The name \<open>deleteTask\<close> is the controller's already; the handler of \<open>App\<close> is
  \<open>deleteTask_client\<close>.
\<close>

definition deleteTask_client :: "fetch \<Rightarrow> int \<Rightarrow> client \<Rightarrow> client" where
  "deleteTask_client fetch i c =
     (let req = \<lparr>http_method = DELETE, url_id = Some i, body = None\<rparr>
      in settle c req
           (then_p (fetch req)
              (\<lambda>_. Fulfilled (filter (\<lambda>t. id_opt t \<noteq> Some i) (tasks c)))))"

subsection \<open>TaskForm\<close>

text \<open>
  \<open>String.prototype.trim\<close> removes the white space and line terminators of
  ECMAScript from both ends: TAB, LF, VT, FF, CR, SPACE, NBSP, U+1680,
  U+2000 to U+200A, U+2028, U+2029, U+202F, U+205F, U+3000 and U+FEFF.
\<close>

definition is_white_space :: "16 word \<Rightarrow> bool" where
  "is_white_space u =
     (u = 0x0009 \<or> u = 0x000A \<or> u = 0x000B \<or> u = 0x000C \<or> u = 0x000D
      \<or> u = 0x0020 \<or> u = 0x00A0 \<or> u = 0x1680
      \<or> (0x2000 \<le> u \<and> u \<le> 0x200A)
      \<or> u = 0x2028 \<or> u = 0x2029 \<or> u = 0x202F \<or> u = 0x205F
      \<or> u = 0x3000 \<or> u = 0xFEFF)"

definition trim :: "jsstring \<Rightarrow> jsstring" where
  "trim s = rev (dropWhile is_white_space (rev (dropWhile is_white_space s)))"

text \<open>
  \<^verbatim>\<open>
  const handleSubmit = (e: FormEvent) => {
    e.preventDefault();
    if (!title.trim()) return;
    onAdd({ title, completed: false });
    setTitle("");
  };
  \<close>
  The form's own state is the text of the input; the empty string is the only falsy
  string. The handler returns the new text and what \<open>onAdd\<close> did to the state of its
  owner.
\<close>

definition handleSubmit :: "(Task \<Rightarrow> 'a \<Rightarrow> 'a) \<Rightarrow> jsstring \<Rightarrow> 'a \<Rightarrow> jsstring \<times> 'a" where
  "handleSubmit onAdd ttl st =
     (if trim ttl = [] then (ttl, st)
      else ([], onAdd \<lparr>id_opt = None, title = ttl, completed = False\<rparr> st))"

subsection \<open>TaskItem and TaskList\<close>

text \<open>
  \<^verbatim>\<open>
  <input type="checkbox" ... onChange={() => task.id && onToggle(task.id)} />
  <button onClick={() => task.id && onDelete(task.id)} ...>
  \<close>
  \<open>task.id && f(task.id)\<close> calls \<open>f\<close> only when \<open>task.id\<close> is truthy: an absent id
  and the number 0 are falsy. An item is modelled by its two event handlers.
\<close>

record 'a item =
  shown :: Task
  onChange :: "'a \<Rightarrow> 'a"
  onClick :: "'a \<Rightarrow> 'a"

definition guarded :: "Task \<Rightarrow> (int \<Rightarrow> 'a \<Rightarrow> 'a) \<Rightarrow> 'a \<Rightarrow> 'a" where
  "guarded task f st =
     (case id_opt task of
        None \<Rightarrow> st
      | Some i \<Rightarrow> if i = 0 then st else f i st)"

definition TaskItem :: "Task \<Rightarrow> (int \<Rightarrow> 'a \<Rightarrow> 'a) \<Rightarrow> (int \<Rightarrow> 'a \<Rightarrow> 'a) \<Rightarrow> 'a item" where
  "TaskItem task onToggle onDelete =
     \<lparr>shown = task, onChange = guarded task onToggle, onClick = guarded task onDelete\<rparr>"

text \<open>
  \<^verbatim>\<open>
  {tasks.map((task) => (
    <TaskItem key={task.id} task={task} onToggle={onToggle} onDelete={onDelete} />))}
  \<close>
\<close>

definition TaskList :: "Task list \<Rightarrow> (int \<Rightarrow> 'a \<Rightarrow> 'a) \<Rightarrow> (int \<Rightarrow> 'a \<Rightarrow> 'a) \<Rightarrow> 'a item list" where
  "TaskList ts onToggle onDelete = map (\<lambda>task. TaskItem task onToggle onDelete) ts"

text \<open>
  \<open>App\<close> renders \<^verbatim>\<open><TaskForm onAdd={addTask} />\<close>: submitting the form runs
  \<open>handleSubmit\<close> with \<open>addTask\<close> as its \<open>onAdd\<close>.
\<close>

definition App_form :: "fetch \<Rightarrow> jsstring \<Rightarrow> client \<Rightarrow> jsstring \<times> client" where
  "App_form fetch ttl c = handleSubmit (addTask fetch) ttl c"

section \<open>Concrete servers and states\<close>

text \<open>
  The inputs at which the properties below are evaluated. A server that cannot be
  reached: \<open>fetch\<close> rejects.
\<close>

definition unreachable_server :: fetch where
  "unreachable_server req = Rejected"

text \<open>
  A server that answers every request with status 500 and a JSON error payload
  (\<^verbatim>\<open>{"timestamp": ..., "status": 500, "error": ..., "path": ...}\<close>). The parsed object
  has none of the fields of a task; read as a \<open>Task\<close> it has no id.
\<close>

definition error_body :: Task where
  "error_body = \<lparr>id_opt = None, title = [], completed = False\<rparr>"

definition failing_server :: fetch where
  "failing_server req = Fulfilled \<lparr>status = 500, json = Fulfilled error_body\<rparr>"

text \<open>
  A server that answers 200 and returns the task of the body under the id of the URL
  (or under id 1 when the URL has none); a request without body gets an empty answer.
\<close>

definition confirming_server :: fetch where
  "confirming_server req =
     (case body req of
        None \<Rightarrow> Fulfilled \<lparr>status = 200, json = Rejected\<rparr>
      | Some t \<Rightarrow>
          Fulfilled \<lparr>status = 200,
                     json = Fulfilled (t\<lparr>id_opt := Some (case url_id req of None \<Rightarrow> 1 | Some i \<Rightarrow> i)\<rparr>)\<rparr>)"

definition empty_client :: client where
  "empty_client = \<lparr>tasks = [], sent = [], unhandled = 0\<rparr>"

text \<open>A handler that records the id it is called with.\<close>

definition log_call :: "int \<Rightarrow> int list \<Rightarrow> int list" where
  "log_call i calls = calls @ [i]"

section \<open>Properties of the server\<close>

subsection \<open>Deletion\<close>

text \<open>
  Claim C4. For every id, \<open>deleteTask\<close> succeeds whether or not a record with that id
  exists; afterwards the store has no record for the id and every other record is
  kept; a second \<open>deleteTask\<close> of the same id succeeds again and changes nothing.
\<close>

theorem C4_delete_idempotent:
  "\<exists>s'. deleteTask i s = Inr s'
      \<and> \<not> existsById s' i
      \<and> getAllTasks s' = filter (\<lambda>r. id_opt r \<noteq> Some i) (getAllTasks s)
      \<and> deleteTask i s' = Inr s'"
  by (auto simp: deleteTask_def deleteById_def getAllTasks_def findAll_def existsById_def)



lemma save_draft:
  "id_opt t = None \<Longrightarrow>
   save p t s = Inr (t\<lparr>id_opt := Some (next_id s)\<rparr>,
                     s\<lparr>rows := rows s @ [t\<lparr>id_opt := Some (next_id s)\<rparr>],
                       next_id := next_id s + 1\<rparr>)"
  by (simp add: save_def persist_def Let_def)

lemma save_Inr_completed:
  "save p t s = Inr (t', s') \<Longrightarrow>
   completed t' = completed t \<and> title t' = title t \<and> t' \<in> set (rows s')"
  by (auto simp: save_def persist_def Let_def existsById_def
           split: option.splits if_splits merge_policy.splits)

lemma save_Inl:
  "save p t s = Inl e \<Longrightarrow>
   e = OptimisticLockingFailure \<and> p = RejectStale \<and> id_opt t \<noteq> None"
  by (auto simp: save_def split: option.splits if_splits merge_policy.splits)


subsection \<open>Creation\<close>

text \<open>
  Claim C1, as stated, fails: \<open>createTask\<close> with the whitespace-only title of three
  spaces, on the empty store, does not end in \<open>ValidationError\<close>; it returns the task
  under id 1 and the store holds it.
\<close>

theorem C1_blank_title_counterexample:
  "createTask RejectStale \<lparr>id_opt = None, title = js ''   '', completed = False\<rparr> empty_store
     = Inr (\<lparr>id_opt = Some 1, title = js ''   '', completed = False\<rparr>,
            \<lparr>rows = [\<lparr>id_opt = Some 1, title = js ''   '', completed = False\<rparr>],
             next_id = 2\<rparr>)"
  by (simp add: createTask_def save_def persist_def Let_def empty_store_def)

text \<open>
  Claim C1, amended. \<open>createTask\<close> validates nothing: for every draft (a task without
  id), whatever its title, an empty or whitespace-only one included, it succeeds,
  returns the draft under the next generated id with its title as sent, and the
  collection of the store is the old one followed by that record.
\<close>

theorem C1_create_persists_any_title:
  assumes "id_opt task = None"
  shows "\<exists>t' s'. createTask p task s = Inr (t', s')
            \<and> t' = task\<lparr>id_opt := Some (next_id s)\<rparr>
            \<and> title t' = title task
            \<and> getAllTasks s' = getAllTasks s @ [t']"
  using assms by (simp add: createTask_def save_draft getAllTasks_def findAll_def)

theorem C1_create_persists_any_title_witness:
  "id_opt \<lparr>id_opt = None, title = [], completed = False\<rparr> = None
   \<and> (\<exists>t' s'. createTask RejectStale \<lparr>id_opt = None, title = [], completed = False\<rparr> empty_store
                  = Inr (t', s')
          \<and> t' = \<lparr>id_opt = None, title = [], completed = False\<rparr>\<lparr>id_opt := Some (next_id empty_store)\<rparr>
          \<and> title t' = title \<lparr>id_opt = None, title = [], completed = False\<rparr>
          \<and> getAllTasks s' = getAllTasks empty_store @ [t'])"
  using C1_create_persists_any_title
          [of "\<lparr>id_opt = None, title = [], completed = False\<rparr>" RejectStale empty_store]
  by simp

subsection \<open>Replacement\<close>

text \<open>
  Claim C2, as stated, fails: \<open>updateTask\<close> of id 99 on the empty store does not end
  in \<open>NotFoundError\<close>. Under the one behaviour of the persistence layer it ends in
  that layer's own failure, under the other it creates a record.
\<close>

theorem C2_replace_unknown_id_counterexample:
  "updateTask RejectStale 99 \<lparr>id_opt = None, title = js ''x'', completed = False\<rparr> empty_store
     = Inl OptimisticLockingFailure
   \<and> updateTask InsertAsNew 99 \<lparr>id_opt = None, title = js ''x'', completed = False\<rparr> empty_store
     = Inr (\<lparr>id_opt = Some 1, title = js ''x'', completed = False\<rparr>,
            \<lparr>rows = [\<lparr>id_opt = Some 1, title = js ''x'', completed = False\<rparr>],
             next_id = 2\<rparr>)"
  by (simp add: updateTask_def save_def persist_def Let_def empty_store_def existsById_def)

text \<open>
  Claim C2, amended. For every id with no record in the store, \<open>updateTask\<close> never
  ends in \<open>NotFoundError\<close>: it checks nothing itself, so the outcome is the one of
  \<open>save\<close> for an unknown id. Either the persistence layer rejects the task as stale,
  or it inserts the task as a new record under a generated id.
\<close>

theorem C2_replace_unknown_id:
  assumes "\<not> existsById s i"
  shows "updateTask p i task s \<noteq> Inl NotFoundError
       \<and> updateTask RejectStale i task s = Inl OptimisticLockingFailure
       \<and> updateTask InsertAsNew i task s
           = Inr (task\<lparr>id_opt := Some (next_id s)\<rparr>,
                  s\<lparr>rows := rows s @ [task\<lparr>id_opt := Some (next_id s)\<rparr>],
                    next_id := next_id s + 1\<rparr>)"
  using assms by (cases p) (simp_all add: updateTask_def save_def persist_def Let_def)

theorem C2_replace_unknown_id_witness:
  "\<not> existsById empty_store 99
   \<and> updateTask RejectStale 99 \<lparr>id_opt = None, title = js ''x'', completed = False\<rparr> empty_store
       \<noteq> Inl NotFoundError
   \<and> updateTask RejectStale 99 \<lparr>id_opt = None, title = js ''x'', completed = False\<rparr> empty_store
       = Inl OptimisticLockingFailure"
proof -
  have absent: "\<not> existsById empty_store 99"
    by (simp add: existsById_def empty_store_def)
  from C2_replace_unknown_id
         [OF absent, of RejectStale "\<lparr>id_opt = None, title = js ''x'', completed = False\<rparr>"]
  show ?thesis using absent by simp
qed




section \<open>Properties of the client\<close>

lemma tasks_settle:
  "tasks (settle c req p) = (case p of Fulfilled ts \<Rightarrow> ts | Rejected \<Rightarrow> tasks c)"
  by (simp add: settle_def split: promise.splits)

lemma sent_settle: "sent (settle c req p) = sent c @ [req]"
  by (simp add: settle_def split: promise.splits)

lemma unhandled_settle:
  "unhandled (settle c req p)
     = (case p of Fulfilled ts \<Rightarrow> unhandled c | Rejected \<Rightarrow> Suc (unhandled c))"
  by (simp add: settle_def split: promise.splits)

subsection \<open>Add\<close>

text \<open>
  Claim C3, as stated, fails: against a server that fails the request with status
  500, \<open>addTask\<close> of "buy milk" on the empty list appends the parsed error payload,
  and no promise is rejected.
\<close>

theorem C3_add_failure_counterexample:
  "tasks (addTask failing_server
            \<lparr>id_opt = None, title = js ''buy milk'', completed = False\<rparr> empty_client)
     = [error_body]
   \<and> unhandled (addTask failing_server
            \<lparr>id_opt = None, title = js ''buy milk'', completed = False\<rparr> empty_client) = 0"
  by (simp add: addTask_def failing_server_def empty_client_def then_p_def
        tasks_settle unhandled_settle)

text \<open>
  Claim C3, amended. For every add action whose request gets no response (the
  promise of \<open>fetch\<close> rejects) or a response whose body is not JSON, the list is
  exactly as it was before the call; the request has gone out, and the failure is a
  rejected promise that no code of the client handles.
\<close>

theorem C3_add_rejected_leaves_list:
  assumes "fetch \<lparr>http_method = POST, url_id = None, body = Some task\<rparr> = Rejected
           \<or> (\<exists>r. fetch \<lparr>http_method = POST, url_id = None, body = Some task\<rparr> = Fulfilled r
                    \<and> json r = Rejected)"
  shows "tasks (addTask fetch task c) = tasks c
       \<and> sent (addTask fetch task c)
           = sent c @ [\<lparr>http_method = POST, url_id = None, body = Some task\<rparr>]
       \<and> unhandled (addTask fetch task c) = Suc (unhandled c)"
  using assms
  by (auto simp: addTask_def Let_def then_p_def tasks_settle sent_settle unhandled_settle)

theorem C3_add_rejected_leaves_list_witness:
  "unreachable_server
       \<lparr>http_method = POST, url_id = None,
        body = Some \<lparr>id_opt = None, title = js ''buy milk'', completed = False\<rparr>\<rparr> = Rejected
   \<and> tasks (addTask unreachable_server
               \<lparr>id_opt = None, title = js ''buy milk'', completed = False\<rparr> empty_client) = []
   \<and> unhandled (addTask unreachable_server
               \<lparr>id_opt = None, title = js ''buy milk'', completed = False\<rparr> empty_client) = 1"
proof -
  have h: "unreachable_server
       \<lparr>http_method = POST, url_id = None,
        body = Some \<lparr>id_opt = None, title = js ''buy milk'', completed = False\<rparr>\<rparr> = Rejected"
    by (simp add: unreachable_server_def)
  from C3_add_rejected_leaves_list [of unreachable_server _ empty_client, OF disjI1, OF h]
  show ?thesis using h by (simp add: empty_client_def)
qed

subsection \<open>Creation through the form\<close>

text \<open>
  Claim C5, as stated, fails: a request body with \<open>completed = true\<close> is persisted
  and returned with \<open>completed = true\<close>.
\<close>

theorem C5_completed_true_counterexample:
  "createTask RejectStale \<lparr>id_opt = None, title = js ''a'', completed = True\<rparr> empty_store
     = Inr (\<lparr>id_opt = Some 1, title = js ''a'', completed = True\<rparr>,
            \<lparr>rows = [\<lparr>id_opt = Some 1, title = js ''a'', completed = True\<rparr>],
             next_id = 2\<rparr>)"
  by (simp add: createTask_def save_def persist_def Let_def empty_store_def)

text \<open>
  Claim C5, amended. For every \<open>createTask\<close>, whatever the body, the \<open>completed\<close>
  field is neither ignored nor overridden: every task that is returned is in the
  store and carries the \<open>completed\<close> value of the body. The call fails only for a
  body with an id, where the persistence layer rejects it as stale; a body without id
  always succeeds and adds the record. Submitting the form with a title that is not
  blank sends a body without id and with \<open>completed = false\<close>.
\<close>

theorem C5_completed_as_sent:
  "(\<forall>t' s'. createTask p task s = Inr (t', s') \<longrightarrow>
       completed t' = completed task \<and> t' \<in> set (getAllTasks s'))
   \<and> (\<forall>e. createTask p task s = Inl e \<longrightarrow>
       e = OptimisticLockingFailure \<and> p = RejectStale \<and> id_opt task \<noteq> None)
   \<and> (id_opt task = None \<longrightarrow>
      (\<exists>t' s'. createTask p task s = Inr (t', s')
          \<and> completed t' = completed task
          \<and> getAllTasks s' = getAllTasks s @ [t']))
   \<and> (trim ttl \<noteq> [] \<longrightarrow>
        sent (snd (App_form fetch ttl c))
          = sent c @ [\<lparr>http_method = POST, url_id = None,
                        body = Some \<lparr>id_opt = None, title = ttl, completed = False\<rparr>\<rparr>])"
proof (intro conjI allI impI)
  fix t' s'
  assume "createTask p task s = Inr (t', s')"
  then show "completed t' = completed task" and "t' \<in> set (getAllTasks s')"
    using save_Inr_completed [of p task s t' s']
    by (simp_all add: createTask_def getAllTasks_def findAll_def)
next
  fix e
  assume "createTask p task s = Inl e"
  then show "e = OptimisticLockingFailure" and "p = RejectStale" and "id_opt task \<noteq> None"
    using save_Inl [of p task s e] by (simp_all add: createTask_def)
next
  assume "id_opt task = None"
  then show "\<exists>t' s'. createTask p task s = Inr (t', s')
          \<and> completed t' = completed task
          \<and> getAllTasks s' = getAllTasks s @ [t']"
    by (simp add: createTask_def save_draft getAllTasks_def findAll_def)
next
  assume "trim ttl \<noteq> []"
  then show "sent (snd (App_form fetch ttl c))
          = sent c @ [\<lparr>http_method = POST, url_id = None,
                        body = Some \<lparr>id_opt = None, title = ttl, completed = False\<rparr>\<rparr>]"
    by (simp add: App_form_def handleSubmit_def addTask_def Let_def sent_settle)
qed

theorem C5_completed_as_sent_witness:
  "createTask RejectStale \<lparr>id_opt = None, title = js ''a'', completed = True\<rparr> empty_store
     = Inr (\<lparr>id_opt = Some 1, title = js ''a'', completed = True\<rparr>,
            \<lparr>rows = [\<lparr>id_opt = Some 1, title = js ''a'', completed = True\<rparr>], next_id = 2\<rparr>)
   \<and> completed \<lparr>id_opt = Some 1, title = js ''a'', completed = True\<rparr>
       = completed \<lparr>id_opt = None, title = js ''a'', completed = True\<rparr>
   \<and> \<lparr>id_opt = Some 1, title = js ''a'', completed = True\<rparr>
       \<in> set (getAllTasks \<lparr>rows = [\<lparr>id_opt = Some 1, title = js ''a'', completed = True\<rparr>],
                            next_id = 2\<rparr>)
   \<and> trim (js ''a'') \<noteq> []
   \<and> sent (snd (App_form confirming_server (js ''a'') empty_client))
       = [\<lparr>http_method = POST, url_id = None,
           body = Some \<lparr>id_opt = None, title = js ''a'', completed = False\<rparr>\<rparr>]"
proof -
  let ?task = "\<lparr>id_opt = None, title = js ''a'', completed = True\<rparr>"
  let ?t = "\<lparr>id_opt = Some 1, title = js ''a'', completed = True\<rparr>"
  let ?s = "\<lparr>rows = [?t], next_id = 2\<rparr>"
  have run: "createTask RejectStale ?task empty_store = Inr (?t, ?s)"
    by (simp add: createTask_def save_def persist_def Let_def empty_store_def)
  have t: "trim (js ''a'') \<noteq> []"
    by (simp add: trim_def js_def is_white_space_def)
  note inst = C5_completed_as_sent [where task = ?task and p = RejectStale and s = empty_store
                      and ttl = "js ''a''" and fetch = confirming_server and c = empty_client]
  from inst run have a: "completed ?t = completed ?task \<and> ?t \<in> set (getAllTasks ?s)"
    by blast
  from inst t have b: "sent (snd (App_form confirming_server (js ''a'') empty_client))
       = sent empty_client @ [\<lparr>http_method = POST, url_id = None,
           body = Some \<lparr>id_opt = None, title = js ''a'', completed = False\<rparr>\<rparr>]"
    by blast
  from run a b t show ?thesis by (simp add: empty_client_def)
qed

subsection \<open>Delete\<close>

text \<open>
  Claim C6, as stated, fails: when the server fails the delete call with status 500,
  the entry is removed from the list all the same, and no promise is rejected.
\<close>

theorem C6_delete_failure_counterexample:
  "tasks (deleteTask_client failing_server 1
            \<lparr>tasks = [\<lparr>id_opt = Some 1, title = js ''a'', completed = False\<rparr>],
             sent = [], unhandled = 0\<rparr>)
     = []
   \<and> unhandled (deleteTask_client failing_server 1
            \<lparr>tasks = [\<lparr>id_opt = Some 1, title = js ''a'', completed = False\<rparr>],
             sent = [], unhandled = 0\<rparr>) = 0"
  by (simp add: deleteTask_client_def failing_server_def then_p_def tasks_settle unhandled_settle)

text \<open>
  Claim C6, amended. For every client delete action the request goes out first and
  the entry is removed only once \<open>fetch\<close> has fulfilled: if its promise rejects (no
  response arrives), every entry remains and the failure is a rejected promise that no
  code of the client handles; if the server answers with a success status, the
  entries of that id are removed and all others kept.
\<close>

theorem C6_delete_after_response:
  "(fetch \<lparr>http_method = DELETE, url_id = Some i, body = None\<rparr> = Rejected \<longrightarrow>
      tasks (deleteTask_client fetch i c) = tasks c
      \<and> unhandled (deleteTask_client fetch i c) = Suc (unhandled c))
   \<and> (\<forall>r. fetch \<lparr>http_method = DELETE, url_id = Some i, body = None\<rparr> = Fulfilled r
          \<and> 200 \<le> status r \<and> status r < 300 \<longrightarrow>
      tasks (deleteTask_client fetch i c) = filter (\<lambda>t. id_opt t \<noteq> Some i) (tasks c)
      \<and> unhandled (deleteTask_client fetch i c) = unhandled c)
   \<and> sent (deleteTask_client fetch i c)
       = sent c @ [\<lparr>http_method = DELETE, url_id = Some i, body = None\<rparr>]"
  by (simp add: deleteTask_client_def Let_def then_p_def tasks_settle sent_settle unhandled_settle)

theorem C6_delete_after_response_witness:
  "unreachable_server \<lparr>http_method = DELETE, url_id = Some 1, body = None\<rparr> = Rejected
   \<and> tasks (deleteTask_client unreachable_server 1
        \<lparr>tasks = [\<lparr>id_opt = Some 1, title = js ''a'', completed = False\<rparr>], sent = [], unhandled = 0\<rparr>)
       = [\<lparr>id_opt = Some 1, title = js ''a'', completed = False\<rparr>]
   \<and> unhandled (deleteTask_client unreachable_server 1
        \<lparr>tasks = [\<lparr>id_opt = Some 1, title = js ''a'', completed = False\<rparr>], sent = [], unhandled = 0\<rparr>)
       = 1
   \<and> confirming_server \<lparr>http_method = DELETE, url_id = Some 1, body = None\<rparr>
       = Fulfilled \<lparr>status = 200, json = Rejected\<rparr>
   \<and> tasks (deleteTask_client confirming_server 1
        \<lparr>tasks = [\<lparr>id_opt = Some 1, title = js ''a'', completed = False\<rparr>], sent = [], unhandled = 0\<rparr>)
       = []"
proof -
  let ?c = "\<lparr>tasks = [\<lparr>id_opt = Some 1, title = js ''a'', completed = False\<rparr>],
             sent = [], unhandled = 0\<rparr>"
  have u: "unreachable_server \<lparr>http_method = DELETE, url_id = Some 1, body = None\<rparr> = Rejected"
    by (simp add: unreachable_server_def)
  have f: "confirming_server \<lparr>http_method = DELETE, url_id = Some 1, body = None\<rparr>
             = Fulfilled \<lparr>status = 200, json = Rejected\<rparr>"
    by (simp add: confirming_server_def)
  from C6_delete_after_response [of unreachable_server 1 ?c] u
  have a: "tasks (deleteTask_client unreachable_server 1 ?c) = tasks ?c
         \<and> unhandled (deleteTask_client unreachable_server 1 ?c) = Suc (unhandled ?c)"
    by blast
  from C6_delete_after_response [of confirming_server 1 ?c] f
  have b: "tasks (deleteTask_client confirming_server 1 ?c)
             = filter (\<lambda>t. id_opt t \<noteq> Some 1) (tasks ?c)"
    by simp
  from a b u f show ?thesis by simp
qed

subsection \<open>Toggle\<close>

lemma find_None_conv: "find (\<lambda>t. id_opt t = Some i) ts = None \<longleftrightarrow> Some i \<notin> id_opt ` set ts"
  by (force simp: find_None_iff)

text \<open>
  Claim C7. If no entry of the list has the id, \<open>toggleTask\<close> changes nothing and
  sends nothing. Otherwise it sends one PUT for that id whose body is the first entry
  with the id, as the list holds it, with only \<open>completed\<close> negated (same id, same
  title); and when the response arrives and its body parses, as it does on success,
  every entry of that id is replaced by the task the server returned and every other
  entry is kept.
\<close>

theorem C7_toggle_snapshot:
  "(Some i \<notin> id_opt ` set (tasks c) \<longrightarrow> toggleTask fetch i c = c)
   \<and> (Some i \<in> id_opt ` set (tasks c) \<longrightarrow>
        (\<exists>task \<in> set (tasks c).
            find (\<lambda>t. id_opt t = Some i) (tasks c) = Some task
          \<and> sent (toggleTask fetch i c)
              = sent c @ [\<lparr>http_method = PUT, url_id = Some i,
                            body = Some \<lparr>id_opt = Some i, title = title task,
                                         completed = \<not> completed task\<rparr>\<rparr>]
          \<and> (\<forall>r u. fetch \<lparr>http_method = PUT, url_id = Some i,
                            body = Some \<lparr>id_opt = Some i, title = title task,
                                         completed = \<not> completed task\<rparr>\<rparr> = Fulfilled r
                    \<and> json r = Fulfilled u \<longrightarrow>
                 tasks (toggleTask fetch i c)
                   = map (\<lambda>t. if id_opt t = Some i then u else t) (tasks c))))"
proof (intro conjI impI)
  assume "Some i \<notin> id_opt ` set (tasks c)"
  then have "find (\<lambda>t. id_opt t = Some i) (tasks c) = None"
    by (simp add: find_None_conv)
  then show "toggleTask fetch i c = c"
    by (simp add: toggleTask_def)
next
  assume "Some i \<in> id_opt ` set (tasks c)"
  then obtain task where f: "find (\<lambda>t. id_opt t = Some i) (tasks c) = Some task"
    using find_None_conv [of i "tasks c"] by (cases "find (\<lambda>t. id_opt t = Some i) (tasks c)") auto
  then have m: "task \<in> set (tasks c)" and ii: "id_opt task = Some i"
    by (auto simp: find_Some_iff)
  have b: "task\<lparr>completed := \<not> completed task\<rparr>
            = \<lparr>id_opt = Some i, title = title task, completed = \<not> completed task\<rparr>"
    using ii by (cases task) simp
  show "\<exists>task \<in> set (tasks c).
            find (\<lambda>t. id_opt t = Some i) (tasks c) = Some task
          \<and> sent (toggleTask fetch i c)
              = sent c @ [\<lparr>http_method = PUT, url_id = Some i,
                            body = Some \<lparr>id_opt = Some i, title = title task,
                                         completed = \<not> completed task\<rparr>\<rparr>]
          \<and> (\<forall>r u. fetch \<lparr>http_method = PUT, url_id = Some i,
                            body = Some \<lparr>id_opt = Some i, title = title task,
                                         completed = \<not> completed task\<rparr>\<rparr> = Fulfilled r
                    \<and> json r = Fulfilled u \<longrightarrow>
                 tasks (toggleTask fetch i c)
                   = map (\<lambda>t. if id_opt t = Some i then u else t) (tasks c))"
    using m f
    by (intro bexI [of _ task])
       (simp_all add: toggleTask_def Let_def b then_p_def tasks_settle sent_settle)
qed

theorem C7_toggle_snapshot_witness:
  "Some 2 \<notin> id_opt ` set (tasks \<lparr>tasks = [\<lparr>id_opt = Some 1, title = js ''a'', completed = False\<rparr>], sent = [], unhandled = 0\<rparr>)
   \<and> toggleTask confirming_server 2
        \<lparr>tasks = [\<lparr>id_opt = Some 1, title = js ''a'', completed = False\<rparr>], sent = [], unhandled = 0\<rparr>
       = \<lparr>tasks = [\<lparr>id_opt = Some 1, title = js ''a'', completed = False\<rparr>], sent = [], unhandled = 0\<rparr>
   \<and> Some 1 \<in> id_opt ` set (tasks \<lparr>tasks = [\<lparr>id_opt = Some 1, title = js ''a'', completed = False\<rparr>], sent = [], unhandled = 0\<rparr>)
   \<and> sent (toggleTask confirming_server 1
        \<lparr>tasks = [\<lparr>id_opt = Some 1, title = js ''a'', completed = False\<rparr>], sent = [], unhandled = 0\<rparr>)
       = [\<lparr>http_method = PUT, url_id = Some 1,
           body = Some \<lparr>id_opt = Some 1, title = js ''a'', completed = True\<rparr>\<rparr>]
   \<and> tasks (toggleTask confirming_server 1
        \<lparr>tasks = [\<lparr>id_opt = Some 1, title = js ''a'', completed = False\<rparr>], sent = [], unhandled = 0\<rparr>)
       = [\<lparr>id_opt = Some 1, title = js ''a'', completed = True\<rparr>]"
proof -
  let ?t = "\<lparr>id_opt = Some 1, title = js ''a'', completed = False\<rparr>"
  let ?c = "\<lparr>tasks = [?t], sent = [], unhandled = 0\<rparr>"
  have absent: "Some 2 \<notin> id_opt ` set (tasks ?c)" and present: "Some 1 \<in> id_opt ` set (tasks ?c)"
    by simp_all
  from C7_toggle_snapshot [of 2 ?c confirming_server] absent
  have a: "toggleTask confirming_server 2 ?c = ?c"
    by blast
  from C7_toggle_snapshot [of 1 ?c confirming_server] present
  obtain task where
    f: "find (\<lambda>t. id_opt t = Some 1) (tasks ?c) = Some task"
    and s: "sent (toggleTask confirming_server 1 ?c)
              = sent ?c @ [\<lparr>http_method = PUT, url_id = Some 1,
                            body = Some \<lparr>id_opt = Some 1, title = title task,
                                         completed = \<not> completed task\<rparr>\<rparr>]"
    and r: "\<And>r u. confirming_server \<lparr>http_method = PUT, url_id = Some 1,
                            body = Some \<lparr>id_opt = Some 1, title = title task,
                                         completed = \<not> completed task\<rparr>\<rparr> = Fulfilled r
                    \<Longrightarrow> json r = Fulfilled u \<Longrightarrow>
                 tasks (toggleTask confirming_server 1 ?c)
                   = map (\<lambda>t. if id_opt t = Some 1 then u else t) (tasks ?c)"
    by blast
  from f have task: "task = ?t" by simp
  have "confirming_server \<lparr>http_method = PUT, url_id = Some 1,
            body = Some \<lparr>id_opt = Some 1, title = js ''a'', completed = True\<rparr>\<rparr>
          = Fulfilled \<lparr>status = 200,
              json = Fulfilled \<lparr>id_opt = Some 1, title = js ''a'', completed = True\<rparr>\<rparr>"
    by (simp add: confirming_server_def)
  from r [unfolded task, simplified, OF this]
  have "tasks (toggleTask confirming_server 1 ?c)
          = [\<lparr>id_opt = Some 1, title = js ''a'', completed = True\<rparr>]"
    by simp
  with a s absent present show ?thesis by (simp add: task)
qed

subsection \<open>The form\<close>

lemma dropWhile_rev_dropWhile:
  "dropWhile P (rev (dropWhile P s)) = [] \<longleftrightarrow> dropWhile P s = []"
proof (cases "dropWhile P s")
  case Nil
  show ?thesis unfolding Nil by simp
next
  case (Cons x xs)
  with hd_dropWhile [of P s] have "\<not> P x" by simp
  then show ?thesis unfolding Cons by (simp add: dropWhile_eq_Nil_conv)
qed

lemma trim_empty_iff: "trim s = [] \<longleftrightarrow> (\<forall>u\<in>set s. is_white_space u)"
  unfolding trim_def rev_is_Nil_conv dropWhile_rev_dropWhile
  by (rule dropWhile_eq_Nil_conv)

text \<open>
  Claim C9. Submitting the form with a title that is empty or consists of white
  space only changes nothing: no request is sent, the list and the text of the input
  stay as they are. Submitting any other title calls \<open>addTask\<close> with the draft of
  that title (not trimmed), no id and \<open>completed = false\<close>, which sends it in a POST,
  and clears the input.
\<close>

theorem C9_form_prevalidates:
  "((\<forall>u\<in>set ttl. is_white_space u) \<longrightarrow> App_form fetch ttl c = (ttl, c))
   \<and> (\<not> (\<forall>u\<in>set ttl. is_white_space u) \<longrightarrow>
        App_form fetch ttl c
          = ([], addTask fetch \<lparr>id_opt = None, title = ttl, completed = False\<rparr> c)
        \<and> sent (snd (App_form fetch ttl c))
          = sent c @ [\<lparr>http_method = POST, url_id = None,
                        body = Some \<lparr>id_opt = None, title = ttl, completed = False\<rparr>\<rparr>])"
  using trim_empty_iff [of ttl]
  by (simp add: App_form_def handleSubmit_def addTask_def Let_def sent_settle)

theorem C9_form_prevalidates_witness:
  "list_all is_white_space (js ''   '')
   \<and> App_form confirming_server (js ''   '') empty_client = (js ''   '', empty_client)
   \<and> \<not> list_all is_white_space (js ''buy milk'')
   \<and> sent (snd (App_form confirming_server (js ''buy milk'') empty_client))
       = [\<lparr>http_method = POST, url_id = None,
           body = Some \<lparr>id_opt = None, title = js ''buy milk'', completed = False\<rparr>\<rparr>]"
proof -
  have blank: "\<forall>u\<in>set (js ''   ''). is_white_space u"
    by (simp add: js_def is_white_space_def)
  have nonblank: "\<not> (\<forall>u\<in>set (js ''buy milk''). is_white_space u)"
    by (simp add: js_def is_white_space_def)
  from C9_form_prevalidates [of "js ''   ''" confirming_server empty_client] blank
  have a: "App_form confirming_server (js ''   '') empty_client = (js ''   '', empty_client)"
    by blast
  from C9_form_prevalidates [of "js ''buy milk''" confirming_server empty_client] nonblank
  have b: "sent (snd (App_form confirming_server (js ''buy milk'') empty_client))
       = sent empty_client @ [\<lparr>http_method = POST, url_id = None,
           body = Some \<lparr>id_opt = None, title = js ''buy milk'', completed = False\<rparr>\<rparr>]"
    by blast
  from blank nonblank a b show ?thesis
    unfolding list_all_iff by (simp add: empty_client_def)
qed

subsection \<open>The list items\<close>

text \<open>
  Claim C10. For every task shown in the list whose id is absent or 0, the checkbox
  and the delete button leave every state as it is, whatever the handlers passed to
  the list are: neither handler is called.
\<close>

theorem C10_falsy_id_guard:
  assumes "k < length ts"
    and "id_opt (ts ! k) = None \<or> id_opt (ts ! k) = Some 0"
  shows "onChange (TaskList ts onToggle onDelete ! k) st = st
       \<and> onClick (TaskList ts onToggle onDelete ! k) st = st"
  using assms by (auto simp: TaskList_def TaskItem_def guarded_def)

theorem C10_falsy_id_guard_witness:
  "(1::nat) < length [\<lparr>id_opt = Some 5, title = js ''a'', completed = False\<rparr>,
                 \<lparr>id_opt = Some 0, title = js ''b'', completed = False\<rparr>]
   \<and> onChange (TaskList [\<lparr>id_opt = Some 5, title = js ''a'', completed = False\<rparr>,
                 \<lparr>id_opt = Some 0, title = js ''b'', completed = False\<rparr>] log_call log_call ! 1) [] = []
   \<and> onClick (TaskList [\<lparr>id_opt = Some 5, title = js ''a'', completed = False\<rparr>,
                 \<lparr>id_opt = Some 0, title = js ''b'', completed = False\<rparr>] log_call log_call ! 1) [] = []"
  using C10_falsy_id_guard [where k = 1 and onToggle = log_call and onDelete = log_call and st = "[]"
                and ts = "[\<lparr>id_opt = Some 5, title = js ''a'', completed = False\<rparr>,
                           \<lparr>id_opt = Some 0, title = js ''b'', completed = False\<rparr>]"]
  by simp

end
